theory Spec2Isabelle
  imports Complex_Main "HOL-Library.Word"
begin

section \<open>Python values shared by the shims\<close>

text \<open>
  The exceptions the shims raise themselves (\<open>ValueError\<close>, \<open>AttributeError\<close>) and the
  one the platform's bus driver raises on a failed transfer (\<open>OSError\<close> with its errno).
\<close>

datatype exn = ValueError string | AttributeError string | OSError int

type_synonym byte = "8 word"

text \<open>
  Python's \<open>int(x)\<close> on a float truncates towards zero. A float is the rational number
  it stands for.
\<close>

definition py_int :: "rat \<Rightarrow> int" where
  "py_int x = (if 0 \<le> x then \<lfloor>x\<rfloor> else \<lceil>x\<rceil>)"

section \<open>pwm.py: PWMOut\<close>

text \<open>
  The object behind \<open>self._pin\<close> is \<open>machine.PWM\<close> on MicroPython and \<open>RPi.GPIO.PWM\<close>
  otherwise; it is modelled by the calls it has received, oldest first.
\<close>

datatype pwm_call = duty int | ChangeDutyCycle rat

record PWMOut =
  pwm_pin_number :: int
  pwm_pin :: "pwm_call list"
  pwm_frequency :: int
  pwm_duty_cycle :: int

text \<open>The property \<open>duty_cycle\<close>: \<open>return self._duty_cycle\<close>.\<close>

definition duty_cycle :: "PWMOut \<Rightarrow> int" where
  "duty_cycle self = pwm_duty_cycle self"

text \<open>
  The setter of \<open>duty_cycle\<close>. \<open>MICROPY\<close> is the module flag set at import time
  (true when \<open>RPi.GPIO\<close> cannot be imported). \<open>fdiv val\<close> is the float that the
  interpreter computes for \<open>val / 655.35\<close>; it is a parameter. In the MicroPython
  branch the quotient by 65535 is taken exactly: its truncation is the same for
  every clamped value.
  \<^verbatim>\<open>
    val = max(0, min(65535, int(val)))
    if MICROPY:
        self._pin.duty(int(val * 1023 / 65535))
    else:
        self._pin.ChangeDutyCycle(val / 655.35)
    self._duty_cycle = val
  \<close>
\<close>

definition duty_cycle_setter :: "bool \<Rightarrow> (int \<Rightarrow> rat) \<Rightarrow> PWMOut \<Rightarrow> int \<Rightarrow> PWMOut" where
  "duty_cycle_setter MICROPY fdiv self v =
     (let val = max 0 (min 65535 v)
      in self\<lparr>pwm_pin := pwm_pin self @
                  [if MICROPY then duty (py_int (of_int (val * 1023) / 65535))
                   else ChangeDutyCycle (fdiv val)],
              pwm_duty_cycle := val\<rparr>)"

subsection \<open>Double-precision division on the Raspberry Pi\<close>

text \<open>
  The RPi.GPIO branch runs on CPython, whose floats are IEEE 754 doubles: a number
  \<open>m * 2 ^ e\<close> with \<open>m\<close> of at most 53 bits. \<open>double_of x\<close> is the double nearest to
  \<open>x\<close>, ties to the even \<open>m\<close>, for \<open>x\<close> in the range of normal doubles (far wider than
  any quotient of a duty cycle); \<open>ilog2 x\<close> is the exponent of the leading bit of a
  positive \<open>x\<close>.
\<close>

fun bitlen_nat :: "nat \<Rightarrow> nat" where
  "bitlen_nat n = (if n = 0 then 0 else Suc (bitlen_nat (n div 2)))"

declare bitlen_nat.simps [simp del]

definition ilog2 :: "rat \<Rightarrow> int" where
  "ilog2 x = (if 1 \<le> x then int (bitlen_nat (nat \<lfloor>x\<rfloor>)) - 1
              else - int (bitlen_nat (nat (\<lceil>1 / x\<rceil> - 1))))"

definition pow2 :: "int \<Rightarrow> rat" where
  "pow2 e = (if 0 \<le> e then 2 ^ nat e else 1 / 2 ^ nat (- e))"

definition round_half_even :: "rat \<Rightarrow> int" where
  "round_half_even x =
     (if x - of_int \<lfloor>x\<rfloor> < 1 / 2 then \<lfloor>x\<rfloor>
      else if 1 / 2 < x - of_int \<lfloor>x\<rfloor> then \<lfloor>x\<rfloor> + 1
      else if even \<lfloor>x\<rfloor> then \<lfloor>x\<rfloor> else \<lfloor>x\<rfloor> + 1)"

definition double_of :: "rat \<Rightarrow> rat" where
  "double_of x =
     (if x = 0 then 0
      else if 0 < x
        then of_int (round_half_even (x / pow2 (ilog2 x - 52))) * pow2 (ilog2 x - 52)
        else - (of_int (round_half_even (- x / pow2 (ilog2 (- x) - 52)))
                * pow2 (ilog2 (- x) - 52)))"

text \<open>
  \<open>val / 655.35\<close> in doubles: the integer and the literal become doubles, and the
  quotient is rounded once.
\<close>

definition truediv_655_35 :: "int \<Rightarrow> rat" where
  "truediv_655_35 val = double_of (double_of (of_int val) / double_of (65535 / 100))"

definition pwm0 :: PWMOut where
  "pwm0 = \<lparr>pwm_pin_number = 2, pwm_pin = [], pwm_frequency = 500, pwm_duty_cycle = 0\<rparr>"

section \<open>The platform: pins, the SPI bus, the I2C bus, buffers\<close>

text \<open>
  Modelled from the spec: the platform objects \<open>machine.Pin\<close> (the spec's Digital
  Output Line), \<open>machine.SPI\<close> and \<open>machine.I2C\<close> (the spec's Bus Handles) are
  collaborators outside the repository. A pin has a mode and a level; an SPI bus is
  either unconfigured or holds the clock rate, polarity and phase of its last
  \<open>init\<close>; an I2C bus object is named by the pins and frequency it was created
  with. Every call a shim makes on a collaborator is appended to \<open>trace\<close>.
  What the I2C wire answers is a parameter of the world: \<open>i2c_scan_result\<close>,
  \<open>i2c_tx\<close> (the error of a \<open>writeto\<close>, if any) and \<open>i2c_rx\<close> (the error of a
  \<open>readfrom_into\<close>, or the bytes the device sends, by position).
  What a pin object answers to a store to its attribute \<open>value\<close> is a parameter as
  well, \<open>pin_store\<close>: \<open>None\<close> when the object takes the store, \<open>Some e\<close> when it
  raises \<open>e\<close>.
  Bytearrays live in \<open>heap\<close> under a reference; \<open>next_ref\<close> is the next free one.
\<close>

datatype mode = IN | OUT

record Pin =
  pin_mode :: mode
  pin_value :: bool

record I2C =
  bus_scl :: int
  bus_sda :: int
  bus_freq :: "int option"

datatype event =
    PinInit int mode "int option" "bool option"
  | PinValue int bool
  | PinSetValue int bool
  | SPIInit nat int int int
  | SPIDeinit nat
  | I2CNew I2C
  | I2CScan I2C
  | I2CWriteto I2C int "byte list" bool
  | I2CReadfromInto I2C int nat nat bool

record world =
  pins :: "int \<Rightarrow> Pin"
  spi_bus :: "nat \<Rightarrow> (int \<times> int \<times> int) option"
  heap :: "nat \<Rightarrow> byte list"
  next_ref :: nat
  i2c_scan_result :: "I2C \<Rightarrow> exn + int list"
  i2c_tx :: "I2C \<Rightarrow> int \<Rightarrow> byte list \<Rightarrow> bool \<Rightarrow> exn option"
  i2c_rx :: "I2C \<Rightarrow> int \<Rightarrow> bool \<Rightarrow> exn + (nat \<Rightarrow> byte)"
  pin_store :: "exn option"
  trace :: "event list"

text \<open>
  Modelled from the spec: the Digital Output Line's \<open>set_output_mode(initial_value)\<close>,
  on the platform \<open>pin.init(mode, pull=..., value=...)\<close>. It sets the mode, and the
  level when one is given.
\<close>

definition Pin_init :: "int \<Rightarrow> mode \<Rightarrow> int option \<Rightarrow> bool option \<Rightarrow> world \<Rightarrow> world" where
  "Pin_init p m pl v w =
     w\<lparr>pins := (pins w)(p := \<lparr>pin_mode = m,
                              pin_value = (case v of None \<Rightarrow> pin_value (pins w p) | Some b \<Rightarrow> b)\<rparr>),
       trace := trace w @ [PinInit p m pl v]\<rparr>"

text \<open>
  Modelled from the spec: the Digital Output Line's \<open>set(bool)\<close>, on the platform the
  method call \<open>pin.value(v)\<close>.
\<close>

definition Pin_value :: "int \<Rightarrow> bool \<Rightarrow> world \<Rightarrow> world" where
  "Pin_value p v w =
     w\<lparr>pins := (pins w)(p := (pins w p)\<lparr>pin_value := v\<rparr>),
       trace := trace w @ [PinValue p v]\<rparr>"

text \<open>
  The attribute store \<open>pin.value = v\<close> that bus_device.py performs on its select
  line. \<open>value\<close> is a method of \<open>machine.Pin\<close> (the \<open>DigitalInOut\<close> shims call
  \<open>self._pin.value(val)\<close> and \<open>self._pin.value()\<close>), and a store to the name of a
  method does not call it: the object rebinds the name, or refuses the store and
  raises, as \<open>pin_store\<close> says. In both cases the level of the line is what it was.
\<close>

definition Pin_set_value :: "int \<Rightarrow> bool \<Rightarrow> world \<Rightarrow> (exn + unit) \<times> world" where
  "Pin_set_value p v w =
     ((case pin_store w of Some e \<Rightarrow> Inl e | None \<Rightarrow> Inr ()),
      w\<lparr>trace := trace w @ [PinSetValue p v]\<rparr>)"

text \<open>
  Modelled from the spec: the SPI Bus Handle's \<open>configure(clock_rate, polarity, phase)\<close>
  and \<open>unconfigure()\<close>, on the platform \<open>spi.init(baudrate=..., polarity=..., phase=...)\<close>
  and \<open>spi.deinit()\<close>. Neither raises.
\<close>

definition SPI_init :: "nat \<Rightarrow> int \<Rightarrow> int \<Rightarrow> int \<Rightarrow> world \<Rightarrow> world" where
  "SPI_init s b po ph w =
     w\<lparr>spi_bus := (spi_bus w)(s := Some (b, po, ph)),
       trace := trace w @ [SPIInit s b po ph]\<rparr>"

definition SPI_deinit :: "nat \<Rightarrow> world \<Rightarrow> world" where
  "SPI_deinit s w =
     w\<lparr>spi_bus := (spi_bus w)(s := None), trace := trace w @ [SPIDeinit s]\<rparr>"

text \<open>
  Modelled from the spec: the re-creation of the I2C bus object,
  \<open>I2C(scl=..., sda=..., frequency=...)\<close>: a new bus object on the given pins.
\<close>

definition I2C_new :: "int \<Rightarrow> int \<Rightarrow> int option \<Rightarrow> world \<Rightarrow> I2C \<times> world" where
  "I2C_new c d f w =
     (\<lparr>bus_scl = c, bus_sda = d, bus_freq = f\<rparr>,
      w\<lparr>trace := trace w @ [I2CNew \<lparr>bus_scl = c, bus_sda = d, bus_freq = f\<rparr>]\<rparr>)"

text \<open>Modelled from the spec: the I2C Bus Handle's \<open>scan()\<close>.\<close>

definition I2C_scan :: "I2C \<Rightarrow> world \<Rightarrow> (exn + int list) \<times> world" where
  "I2C_scan b w = (i2c_scan_result w b, w\<lparr>trace := trace w @ [I2CScan b]\<rparr>)"

text \<open>
  Modelled from the spec: the I2C Bus Handle's \<open>write(address, buffer_range, send_stop)\<close>,
  on the platform \<open>i2c.writeto(addr, buf, stop=...)\<close>. It sends the whole content of
  the object \<open>buf\<close>.
\<close>

definition I2C_writeto :: "I2C \<Rightarrow> int \<Rightarrow> nat \<Rightarrow> bool \<Rightarrow> world \<Rightarrow> (exn + unit) \<times> world" where
  "I2C_writeto b a buf stop w =
     ((case i2c_tx w b a (heap w buf) stop of Some e \<Rightarrow> Inl e | None \<Rightarrow> Inr ()),
      w\<lparr>trace := trace w @ [I2CWriteto b a (heap w buf) stop]\<rparr>)"

text \<open>
  Modelled from the spec: the I2C Bus Handle's
  \<open>read_into(address, buffer_range, send_stop)\<close>, on the platform
  \<open>i2c.readfrom_into(addr, buf, stop=...)\<close>. It fills the object \<open>buf\<close>, all of it, with
  the bytes the device sends.
\<close>

definition I2C_readfrom_into :: "I2C \<Rightarrow> int \<Rightarrow> nat \<Rightarrow> bool \<Rightarrow> world \<Rightarrow> (exn + unit) \<times> world" where
  "I2C_readfrom_into b a buf stop w =
     (case i2c_rx w b a stop of
        Inl e \<Rightarrow>
          (Inl e, w\<lparr>trace := trace w @ [I2CReadfromInto b a buf (length (heap w buf)) stop]\<rparr>)
      | Inr f \<Rightarrow>
          (Inr (), w\<lparr>heap := (heap w)(buf := map f [0..<length (heap w buf)]),
                     trace := trace w @ [I2CReadfromInto b a buf (length (heap w buf)) stop]\<rparr>))"

subsection \<open>Python slicing and formatting\<close>

text \<open>
  \<open>xs[start:end]\<close> with integer bounds: a negative bound counts from the end, and
  both are clamped into \<open>[0, len(xs)]\<close>.
\<close>

definition slice_index :: "int \<Rightarrow> int \<Rightarrow> nat" where
  "slice_index n i = nat (if i < 0 then max 0 (i + n) else min i n)"

definition py_slice :: "'a list \<Rightarrow> int \<Rightarrow> int \<Rightarrow> 'a list" where
  "py_slice xs start stop =
     (let n = int (length xs); s = slice_index n start; e = slice_index n stop
      in take (e - s) (drop s xs))"

text \<open>Slicing a bytearray allocates a new bytearray holding a copy of the range.\<close>

definition bytearray_slice :: "nat \<Rightarrow> int \<Rightarrow> int \<Rightarrow> world \<Rightarrow> nat \<times> world" where
  "bytearray_slice buf start stop w =
     (next_ref w,
      w\<lparr>heap := (heap w)(next_ref w := py_slice (heap w buf) start stop),
        next_ref := Suc (next_ref w)\<rparr>)"

definition hex_digit :: "nat \<Rightarrow> char" where
  "hex_digit d = ''0123456789abcdef'' ! d"

fun hex_nat :: "nat \<Rightarrow> string" where
  "hex_nat n = (if n < 16 then [hex_digit n] else hex_nat (n div 16) @ [hex_digit (n mod 16)])"

declare hex_nat.simps [simp del]

text \<open>\<open>"%x" % i\<close>\<close>

definition format_x :: "int \<Rightarrow> string" where
  "format_x i = (if i < 0 then CHR ''-'' # hex_nat (nat (- i)) else hex_nat (nat i))"

subsection \<open>The \<open>with\<close> statement\<close>

text \<open>
  \<open>with guard as r: body\<close>: \<open>__enter__\<close> runs, then the body, then \<open>__exit__\<close> whether
  the body returned or raised; the body's exception is raised again unless
  \<open>__exit__\<close> returned a true value. The result \<open>Inr None\<close> is a suppressed exception.
  The guards' \<open>__enter__\<close> and \<open>__exit__\<close> return the guard itself as well, so that what
  they assign to \<open>self\<close> is visible.
\<close>

definition py_with ::
  "('s \<Rightarrow> world \<Rightarrow> 'r \<times> 's \<times> world) \<Rightarrow> ('s \<Rightarrow> world \<Rightarrow> bool \<times> 's \<times> world) \<Rightarrow> 's \<Rightarrow>
   ('r \<Rightarrow> world \<Rightarrow> (exn + 'a) \<times> world) \<Rightarrow> world \<Rightarrow> (exn + 'a option) \<times> 's \<times> world" where
  "py_with enter exit self body w =
     (case enter self w of (r, self1, w1) \<Rightarrow>
      case body r w1 of (res, w2) \<Rightarrow>
      case exit self1 w2 of (suppress, self2, w3) \<Rightarrow>
        ((case res of Inr v \<Rightarrow> Inr (Some v)
                    | Inl e \<Rightarrow> if suppress then Inr None else Inl e),
         self2, w3))"

text \<open>
  The same statement over a guard whose \<open>__enter__\<close> and \<open>__exit__\<close> can raise: an
  exception of \<open>__enter__\<close> is the statement's, and neither the body nor \<open>__exit__\<close>
  runs; an exception of \<open>__exit__\<close> is the statement's, whatever the body did.
\<close>

definition py_with_raising ::
  "('s \<Rightarrow> world \<Rightarrow> (exn + 'r) \<times> 's \<times> world) \<Rightarrow> ('s \<Rightarrow> world \<Rightarrow> (exn + bool) \<times> 's \<times> world)
   \<Rightarrow> 's \<Rightarrow> ('r \<Rightarrow> world \<Rightarrow> (exn + 'a) \<times> world) \<Rightarrow> world
   \<Rightarrow> (exn + 'a option) \<times> 's \<times> world" where
  "py_with_raising enter exit self body w =
     (case enter self w of
        (Inl e, self1, w1) \<Rightarrow> (Inl e, self1, w1)
      | (Inr r, self1, w1) \<Rightarrow>
          (case body r w1 of (res, w2) \<Rightarrow>
           case exit self1 w2 of
             (Inl e, self2, w3) \<Rightarrow> (Inl e, self2, w3)
           | (Inr suppress, self2, w3) \<Rightarrow>
               ((case res of Inr v \<Rightarrow> Inr (Some v)
                           | Inl e \<Rightarrow> if suppress then Inr None else Inl e),
                self2, w3)))"

section \<open>udigitalio.py: DigitalInOut\<close>

text \<open>\<open>self._pin\<close> is the \<open>machine.Pin\<close> of the given number.\<close>

record DigitalInOut =
  dio_pin :: int

text \<open>
  \<open>switch_to_output(value=...)\<close> as esp32/udigitalio.py and digi_io.py have it:
  \<open>self._pin.init(Pin.OUT, value=value)\<close>.
\<close>

definition switch_to_output :: "DigitalInOut \<Rightarrow> bool \<Rightarrow> world \<Rightarrow> world" where
  "switch_to_output self v w = Pin_init (dio_pin self) OUT None (Some v) w"

text \<open>The setter of \<open>value\<close>: \<open>self._pin.value(val)\<close>.\<close>

definition value_setter :: "DigitalInOut \<Rightarrow> bool \<Rightarrow> world \<Rightarrow> world" where
  "value_setter self v w = Pin_value (dio_pin self) v w"

text \<open>
  esp8266/udigitalio.py. \<open>PULL_UP\<close> is the platform constant \<open>Pin.PULL_UP\<close>
  behind \<open>Pull.UP\<close>; it is a parameter.
  \<^verbatim>\<open>
    if pull is None:
        self._pin.init(Pin.OUT, value=value)
    elif pull == Pull.UP:
        self._pin.init(Pin.OUT, pull=pull, value=value)
    else:
        raise AttributeError("pull parameter is unrecognized & not "
                             "defined in class 'udigitalio.Pull'")
  \<close>
\<close>

definition pull_message :: string where
  "pull_message = ''pull parameter is unrecognized & not defined in class ''
                  @ [CHR 0x27] @ ''udigitalio.Pull'' @ [CHR 0x27]"

definition esp8266_switch_to_output ::
  "int \<Rightarrow> DigitalInOut \<Rightarrow> int option \<Rightarrow> bool \<Rightarrow> world \<Rightarrow> (exn + unit) \<times> world" where
  "esp8266_switch_to_output PULL_UP self pull v w =
     (case pull of
        None \<Rightarrow> (Inr (), Pin_init (dio_pin self) OUT None (Some v) w)
      | Some p \<Rightarrow>
          if p = PULL_UP then (Inr (), Pin_init (dio_pin self) OUT (Some p) (Some v) w)
          else (Inl (AttributeError pull_message), w))"

section \<open>ubus_device.py: SPIDevice\<close>

text \<open>
  The guard keeps a reference to the shared bus (its number) and to its select line, a
  \<open>DigitalInOut\<close> (it is driven through \<open>switch_to_output\<close> and the \<open>value\<close> setter).
  A \<open>DigitalInOut\<close> object is true in a condition, \<open>None\<close> is false.
\<close>

record SPIDevice =
  spi :: nat
  baudrate :: int
  polarity :: int
  phase :: int
  chip_select :: "DigitalInOut option"

text \<open>
  \<^verbatim>\<open>
    self.spi = spi
    self.spi.deinit()
    self.baudrate = baudrate; self.polarity = polarity; self.phase = phase
    self.chip_select = chip_select
    if self.chip_select:
        self.chip_select.switch_to_output(value=True)
  \<close>
\<close>

definition SPIDevice_init ::
  "nat \<Rightarrow> DigitalInOut option \<Rightarrow> int \<Rightarrow> int \<Rightarrow> int \<Rightarrow> world \<Rightarrow> SPIDevice \<times> world" where
  "SPIDevice_init s cs b po ph w =
     (let w1 = SPI_deinit s w;
          self = \<lparr>spi = s, baudrate = b, polarity = po, phase = ph, chip_select = cs\<rparr>
      in (self, (case chip_select self of
                   Some c \<Rightarrow> switch_to_output c True w1
                 | None \<Rightarrow> w1)))"

text \<open>
  \<^verbatim>\<open>
    self.spi.init(baudrate=self.baudrate, polarity=self.polarity, phase=self.phase)
    if self.chip_select:
        self.chip_select.value = False
    return self.spi
  \<close>
\<close>

definition SPIDevice_enter :: "SPIDevice \<Rightarrow> world \<Rightarrow> nat \<times> SPIDevice \<times> world" where
  "SPIDevice_enter self w =
     (let w1 = SPI_init (spi self) (baudrate self) (polarity self) (phase self) w
      in (spi self, self, (case chip_select self of
                             Some c \<Rightarrow> value_setter c False w1
                           | None \<Rightarrow> w1)))"

text \<open>
  \<^verbatim>\<open>
    if self.chip_select:
        self.chip_select.value = True
    self.spi.deinit()
    return False
  \<close>
\<close>

definition SPIDevice_exit :: "SPIDevice \<Rightarrow> world \<Rightarrow> bool \<times> SPIDevice \<times> world" where
  "SPIDevice_exit self w =
     (let w1 = (case chip_select self of
                  Some c \<Rightarrow> value_setter c True w
                | None \<Rightarrow> w)
      in (False, self, SPI_deinit (spi self) w1))"

definition with_SPIDevice ::
  "SPIDevice \<Rightarrow> (nat \<Rightarrow> world \<Rightarrow> (exn + 'a) \<times> world) \<Rightarrow> world
   \<Rightarrow> (exn + 'a option) \<times> SPIDevice \<times> world" where
  "with_SPIDevice = py_with SPIDevice_enter SPIDevice_exit"

section \<open>bus_device.py: SPIDevice\<close>

text \<open>
  The guard of bus_device.py takes a bare \<open>machine.Pin\<close> as select line
  (\<open>:param ~machine.Pin chip_select\<close>): construction calls
  \<open>chip_select.init(mode=Pin.OUT, value=True)\<close>, but acquisition and release store to
  \<open>chip_select.value\<close>.
\<close>

record bus_SPIDevice =
  bd_spi :: nat
  bd_baudrate :: int
  bd_polarity :: int
  bd_phase :: int
  bd_chip_select :: "int option"

text \<open>
  \<^verbatim>\<open>
    self.spi = spi
    self.spi.deinit()
    self.baudrate = baudrate; self.polarity = polarity; self.phase = phase
    self.chip_select = chip_select
    if self.chip_select:
        self.chip_select.init(mode=Pin.OUT, value=True)
  \<close>
\<close>

definition bus_SPIDevice_init ::
  "nat \<Rightarrow> int option \<Rightarrow> int \<Rightarrow> int \<Rightarrow> int \<Rightarrow> world \<Rightarrow> bus_SPIDevice \<times> world" where
  "bus_SPIDevice_init s cs b po ph w =
     (let w1 = SPI_deinit s w;
          self = \<lparr>bd_spi = s, bd_baudrate = b, bd_polarity = po, bd_phase = ph,
                  bd_chip_select = cs\<rparr>
      in (self, (case bd_chip_select self of
                   Some c \<Rightarrow> Pin_init c OUT None (Some True) w1
                 | None \<Rightarrow> w1)))"

text \<open>
  \<^verbatim>\<open>
    self.spi.init(baudrate=self.baudrate, polarity=self.polarity, phase=self.phase)
    if self.chip_select:
        self.chip_select.value = False
    return self.spi
  \<close>
  A store that raises leaves the method after \<open>spi.init\<close> has run.
\<close>

definition bus_SPIDevice_enter ::
  "bus_SPIDevice \<Rightarrow> world \<Rightarrow> (exn + nat) \<times> bus_SPIDevice \<times> world" where
  "bus_SPIDevice_enter self w =
     (let w1 = SPI_init (bd_spi self) (bd_baudrate self) (bd_polarity self) (bd_phase self) w
      in case bd_chip_select self of
           Some c \<Rightarrow>
             (case Pin_set_value c False w1 of
                (Inl e, w2) \<Rightarrow> (Inl e, self, w2)
              | (Inr u, w2) \<Rightarrow> (Inr (bd_spi self), self, w2))
         | None \<Rightarrow> (Inr (bd_spi self), self, w1))"

text \<open>
  \<^verbatim>\<open>
    if self.chip_select:
        self.chip_select.value = True
    self.spi.deinit()
    return False
  \<close>
  A store that raises leaves the method before \<open>spi.deinit\<close>.
\<close>

definition bus_SPIDevice_exit ::
  "bus_SPIDevice \<Rightarrow> world \<Rightarrow> (exn + bool) \<times> bus_SPIDevice \<times> world" where
  "bus_SPIDevice_exit self w =
     (case bd_chip_select self of
        Some c \<Rightarrow>
          (case Pin_set_value c True w of
             (Inl e, w1) \<Rightarrow> (Inl e, self, w1)
           | (Inr u, w1) \<Rightarrow> (Inr False, self, SPI_deinit (bd_spi self) w1))
      | None \<Rightarrow> (Inr False, self, SPI_deinit (bd_spi self) w))"

definition with_bus_SPIDevice ::
  "bus_SPIDevice \<Rightarrow> (nat \<Rightarrow> world \<Rightarrow> (exn + 'a) \<times> world) \<Rightarrow> world
   \<Rightarrow> (exn + 'a option) \<times> bus_SPIDevice \<times> world" where
  "with_bus_SPIDevice = py_with_raising bus_SPIDevice_enter bus_SPIDevice_exit"

section \<open>ubus_device.py: I2CDevice\<close>

record I2CDevice =
  i2c :: I2C
  sda :: "int option"
  scl :: "int option"
  freq :: "int option"
  device_address :: int

text \<open>
  \<^verbatim>\<open>
    for addr in self.i2c.scan():
        if addr == self.device_address:
            return True
    return False
  \<close>
\<close>

fun probe_loop :: "int list \<Rightarrow> int \<Rightarrow> bool" where
  "probe_loop [] a = False"
| "probe_loop (addr # rest) a = (if addr = a then True else probe_loop rest a)"

definition probe_for_device :: "I2CDevice \<Rightarrow> world \<Rightarrow> (exn + bool) \<times> world" where
  "probe_for_device self w =
     (case I2C_scan (i2c self) w of
        (Inl e, w1) \<Rightarrow> (Inl e, w1)
      | (Inr addrs, w1) \<Rightarrow> (Inr (probe_loop addrs (device_address self)), w1))"

text \<open>
  \<^verbatim>\<open>
    def __init__(self, i2c, address, probe=True, scl=None, sda=None, frequency=None):
        self.i2c = i2c
        self.sda, self.scl = (scl, sda)
        self.freq = frequency
        self.device_address = address
        if probe:
            if not self.__probe_for_device():
                raise ValueError("No I2C device at address: %x" % self.device_address)
  \<close>
\<close>

definition I2CDevice_init ::
  "I2C \<Rightarrow> int \<Rightarrow> bool \<Rightarrow> int option \<Rightarrow> int option \<Rightarrow> int option \<Rightarrow> world
   \<Rightarrow> (exn + I2CDevice) \<times> world" where
  "I2CDevice_init bus address probe scl_arg sda_arg frequency w =
     (let self = \<lparr>i2c = bus, sda = scl_arg, scl = sda_arg, freq = frequency,
                  device_address = address\<rparr>
      in if probe then
           (case probe_for_device self w of
              (Inl e, w1) \<Rightarrow> (Inl e, w1)
            | (Inr found, w1) \<Rightarrow>
                if \<not> found
                then (Inl (ValueError (''No I2C device at address: ''
                                       @ format_x (device_address self))), w1)
                else (Inr self, w1))
         else (Inr self, w))"

text \<open>
  \<^verbatim>\<open>
    if end is None:
        end = len(buf)
    self.i2c.readfrom_into(self.device_address,  buf[start:end], stop=stop)
  \<close>
  \<open>buf\<close> is the reference of the caller's bytearray.
\<close>

definition I2CDevice_readinto ::
  "I2CDevice \<Rightarrow> nat \<Rightarrow> int \<Rightarrow> int option \<Rightarrow> bool \<Rightarrow> world \<Rightarrow> (exn + unit) \<times> world" where
  "I2CDevice_readinto self buf start end_opt stop w =
     (let end1 = (case end_opt of None \<Rightarrow> int (length (heap w buf)) | Some e \<Rightarrow> e)
      in case bytearray_slice buf start end1 w of
           (part, w1) \<Rightarrow> I2C_readfrom_into (i2c self) (device_address self) part stop w1)"

text \<open>
  \<^verbatim>\<open>
    if end is None:
        end = len(buf)
    self.i2c.writeto(self.device_address, buf[start:end], stop=stop)
  \<close>
\<close>

definition I2CDevice_write ::
  "I2CDevice \<Rightarrow> nat \<Rightarrow> int \<Rightarrow> int option \<Rightarrow> bool \<Rightarrow> world \<Rightarrow> (exn + unit) \<times> world" where
  "I2CDevice_write self buf start end_opt stop w =
     (let end1 = (case end_opt of None \<Rightarrow> int (length (heap w buf)) | Some e \<Rightarrow> e)
      in case bytearray_slice buf start end1 w of
           (part, w1) \<Rightarrow> I2C_writeto (i2c self) (device_address self) part stop w1)"

text \<open>
  \<^verbatim>\<open>
    if out_end is None:
        out_end = len(out_buffer)
    if in_end is None:
        in_end = len(in_buffer)
    self.write(out_buffer, start=out_start, end=out_end, stop=False)
    self.readinto(in_buffer, start=in_start, end=in_end)
  \<close>
  An exception of \<open>write\<close> leaves the method before \<open>readinto\<close> is called.
\<close>

definition I2CDevice_write_then_readinto ::
  "I2CDevice \<Rightarrow> nat \<Rightarrow> nat \<Rightarrow> int \<Rightarrow> int option \<Rightarrow> int \<Rightarrow> int option \<Rightarrow> world
   \<Rightarrow> (exn + unit) \<times> world" where
  "I2CDevice_write_then_readinto self out_buffer in_buffer out_start out_end in_start in_end w =
     (let out_end1 = (case out_end of None \<Rightarrow> int (length (heap w out_buffer)) | Some e \<Rightarrow> e);
          in_end1 = (case in_end of None \<Rightarrow> int (length (heap w in_buffer)) | Some e \<Rightarrow> e)
      in case I2CDevice_write self out_buffer out_start (Some out_end1) False w of
           (Inl e, w1) \<Rightarrow> (Inl e, w1)
         | (Inr u, w1) \<Rightarrow> I2CDevice_readinto self in_buffer in_start (Some in_end1) True w1)"

text \<open>
  \<^verbatim>\<open>
    if self.scl is not None and self.sda is not None:
        if self.freq is not None:
            self.i2c = I2C(scl=self.scl, sda=self.sda, frequency=self.freq)
        else:
            self.i2c = I2C(scl=self.scl, sda=self.sda)
    return self
  \<close>
\<close>

definition I2CDevice_enter :: "I2CDevice \<Rightarrow> world \<Rightarrow> I2CDevice \<times> I2CDevice \<times> world" where
  "I2CDevice_enter self w =
     (case (scl self, sda self) of
        (Some c, Some d) \<Rightarrow>
          (case freq self of
             Some f \<Rightarrow>
               (case I2C_new c d (Some f) w of
                  (b, w1) \<Rightarrow> (self\<lparr>i2c := b\<rparr>, self\<lparr>i2c := b\<rparr>, w1))
           | None \<Rightarrow>
               (case I2C_new c d None w of
                  (b, w1) \<Rightarrow> (self\<lparr>i2c := b\<rparr>, self\<lparr>i2c := b\<rparr>, w1)))
      | _ \<Rightarrow> (self, self, w))"



text \<open>The events that are a bus scan.\<close>

definition is_scan :: "event \<Rightarrow> bool" where
  "is_scan ev = (case ev of I2CScan b \<Rightarrow> True | _ \<Rightarrow> False)"

section \<open>Repeated transactions\<close>

text \<open>
  A caller that runs one \<open>with\<close> statement after the other on the same guard, one per
  body, going on after a body that raised.
\<close>

fun SPI_cycles ::
  "SPIDevice \<Rightarrow> (nat \<Rightarrow> world \<Rightarrow> (exn + 'a) \<times> world) list \<Rightarrow> world \<Rightarrow> SPIDevice \<times> world" where
  "SPI_cycles self [] w = (self, w)"
| "SPI_cycles self (body # bodies) w =
     (case with_SPIDevice self body w of (r, self1, w1) \<Rightarrow> SPI_cycles self1 bodies w1)"

fun bus_SPI_cycles ::
  "bus_SPIDevice \<Rightarrow> (nat \<Rightarrow> world \<Rightarrow> (exn + 'a) \<times> world) list \<Rightarrow> world
   \<Rightarrow> bus_SPIDevice \<times> world" where
  "bus_SPI_cycles self [] w = (self, w)"
| "bus_SPI_cycles self (body # bodies) w =
     (case with_bus_SPIDevice self body w of (r, self1, w1) \<Rightarrow> bus_SPI_cycles self1 bodies w1)"

section \<open>Concrete inputs\<close>

text \<open>
  A board with all pins floating as inputs, the SPI buses unconfigured, two bytearrays
  (reference 0: ten bytes 0..9, reference 1: four zero bytes), and an I2C wire on
  which only address 0x10 answers; it sends 1, 2, 3, ... Its pin objects take a store
  to \<open>value\<close>.
\<close>

definition w0 :: world where
  "w0 = \<lparr>pins = (\<lambda>p. \<lparr>pin_mode = IN, pin_value = False\<rparr>),
         spi_bus = (\<lambda>s. None),
         heap = (\<lambda>r. if r = 0 then [0, 1, 2, 3, 4, 5, 6, 7, 8, 9]
                        else if r = 1 then [0, 0, 0, 0] else []),
         next_ref = 2,
         i2c_scan_result = (\<lambda>b. Inr [0x10]),
         i2c_tx = (\<lambda>b a d s. if a = 0x10 then None else Some (OSError 19)),
         i2c_rx = (\<lambda>b a s. if a = 0x10 then Inr (\<lambda>i. of_nat (Suc i)) else Inl (OSError 19)),
         pin_store = None,
         trace = []\<rparr>"

definition bus0 :: I2C where
  "bus0 = \<lparr>bus_scl = 5, bus_sda = 4, bus_freq = None\<rparr>"

definition cs0 :: DigitalInOut where
  "cs0 = \<lparr>dio_pin = 15\<rparr>"

definition spidev0 :: SPIDevice where
  "spidev0 = \<lparr>spi = 1, baudrate = 100000, polarity = 0, phase = 0, chip_select = Some cs0\<rparr>"

definition bspidev0 :: bus_SPIDevice where
  "bspidev0 = \<lparr>bd_spi = 1, bd_baudrate = 100000, bd_polarity = 0, bd_phase = 0,
                bd_chip_select = Some 15\<rparr>"

text \<open>
  The board after bus_device.py's guard \<open>bspidev0\<close> has been constructed on it, with pin
  objects that take the store to \<open>value\<close>, and with pin objects that refuse it as
  MicroPython's do.
\<close>

definition w_bus :: world where
  "w_bus = snd (bus_SPIDevice_init 1 (Some 15) 100000 0 0 w0)"

definition no_attribute :: exn where
  "no_attribute = AttributeError (CHR 0x27 # ''Pin'' @ [CHR 0x27] @ '' object has no attribute ''
                    @ [CHR 0x27] @ ''value'' @ [CHR 0x27])"

definition w_bus_refusing :: world where
  "w_bus_refusing = w_bus\<lparr>pin_store := Some no_attribute\<rparr>"

text \<open>A transaction body that fails at once, as a transfer on a dead bus does.\<close>

definition failing_body :: "nat \<Rightarrow> world \<Rightarrow> (exn + unit) \<times> world" where
  "failing_body s w = (Inl (OSError 5), w)"

definition i2cdev0 :: I2CDevice where
  "i2cdev0 = \<lparr>i2c = bus0, sda = None, scl = None, freq = None, device_address = 0x10\<rparr>"




section \<open>Properties of PWMOut\<close>

lemma py_int_quotient:
  "0 \<le> a \<Longrightarrow> py_int (of_int a / 65535) = a div 65535"
proof -
  assume "0 \<le> a"
  then have "(0::rat) \<le> of_int a / 65535" by simp
  moreover have "\<lfloor>(of_int a :: rat) / of_int 65535\<rfloor> = a div 65535"
    by (rule floor_divide_of_int_eq)
  ultimately show ?thesis by (simp add: py_int_def)
qed

text \<open>
  C10 (amended). The setter stores the input clamped into \<open>[0, 65535]\<close>, the property
  returns that value, and the underlying pin receives one call: on MicroPython
  \<open>duty\<close> with the clamp times 1023 integer-divided by 65535, on the Raspberry Pi
  \<open>ChangeDutyCycle\<close> with the float quotient of the clamp by 655.35.
\<close>

theorem duty_cycle_setter_clamps:
  "pwm_duty_cycle (duty_cycle_setter MICROPY fdiv self v) = max 0 (min 65535 v)
   \<and> duty_cycle (duty_cycle_setter MICROPY fdiv self v) = max 0 (min 65535 v)
   \<and> 0 \<le> duty_cycle (duty_cycle_setter MICROPY fdiv self v)
   \<and> duty_cycle (duty_cycle_setter MICROPY fdiv self v) \<le> 65535
   \<and> (v < 0 \<longrightarrow> duty_cycle (duty_cycle_setter MICROPY fdiv self v) = 0)
   \<and> (65535 < v \<longrightarrow> duty_cycle (duty_cycle_setter MICROPY fdiv self v) = 65535)
   \<and> (MICROPY \<longrightarrow> pwm_pin (duty_cycle_setter MICROPY fdiv self v) =
         pwm_pin self @ [duty (max 0 (min 65535 v) * 1023 div 65535)])
   \<and> (\<not> MICROPY \<longrightarrow> pwm_pin (duty_cycle_setter MICROPY fdiv self v) =
         pwm_pin self @ [ChangeDutyCycle (fdiv (max 0 (min 65535 v)))])"
proof -
  have "0 \<le> max 0 (min 65535 v) * 1023" by simp
  then have "py_int (of_int (max 0 (min 65535 v) * 1023) / 65535)
             = max 0 (min 65535 v) * 1023 div 65535"
    by (rule py_int_quotient)
  then show ?thesis
    by (simp add: duty_cycle_setter_def duty_cycle_def Let_def)
qed

lemma floor_rat_numeral:
  "\<lfloor>(numeral a :: rat) / numeral b\<rfloor> = numeral a div numeral b"
  using floor_divide_of_int_eq [of "numeral a" "numeral b", where ?'a = rat] by simp

lemma ceiling_rat_numeral:
  "\<lceil>(numeral a :: rat) / numeral b\<rceil> = - (- numeral a div numeral b)"
  using floor_divide_of_int_eq [of "- numeral a" "numeral b", where ?'a = rat]
  by (simp add: ceiling_def)

lemmas double_eval =
  double_of_def ilog2_def pow2_def round_half_even_def bitlen_nat.simps
  floor_rat_numeral ceiling_rat_numeral

text \<open>The literal \<open>655.35\<close> is the double 5764519562104013 / 2 ^ 43.\<close>

lemma double_of_655_35: "double_of (13107 / 20) = 5764519562104013 / 8796093022208"
  by (simp add: double_eval)

lemma double_of_ints: "double_of 32768 = 32768" "double_of 65535 = 65535"
  by (simp_all add: double_eval)

lemma double_quotients:
  "double_of (32768 / (5764519562104013 / 8796093022208))
     = 7036981793587225 / 140737488355328"
  "double_of (65535 / (5764519562104013 / 8796093022208)) = 100"
  by (simp_all add: double_eval)

text \<open>
  \<open>32768 / 655.35\<close> is the double 50.000762951094835..., not the rational
  \<open>655360 / 13107\<close>; \<open>65535 / 655.35\<close> is \<open>100.0\<close>.
\<close>

lemma truediv_655_35_values:
  "truediv_655_35 0 = 0"
  "truediv_655_35 32768 = 7036981793587225 / 140737488355328"
  "truediv_655_35 65535 = 100"
  using double_quotients
  by (simp_all add: truediv_655_35_def double_of_655_35 double_of_ints)
     (simp add: double_of_def)

lemma truediv_655_35_inexact: "truediv_655_35 32768 \<noteq> 32768 / (65535 / 100)"
  by (simp add: truediv_655_35_values)

theorem duty_cycle_setter_clamps_witness:
  "duty_cycle (duty_cycle_setter True truediv_655_35 pwm0 70000) = 65535
   \<and> pwm_pin (duty_cycle_setter True truediv_655_35 pwm0 70000) = [duty 1023]
   \<and> duty_cycle (duty_cycle_setter False truediv_655_35 pwm0 (- 3)) = 0
   \<and> pwm_pin (duty_cycle_setter False truediv_655_35 pwm0 (- 3)) = [ChangeDutyCycle 0]
   \<and> duty_cycle (duty_cycle_setter False truediv_655_35 pwm0 32768) = 32768
   \<and> pwm_pin (duty_cycle_setter False truediv_655_35 pwm0 32768)
       = [ChangeDutyCycle (7036981793587225 / 140737488355328)]"
  using duty_cycle_setter_clamps [of True truediv_655_35 pwm0 70000]
        duty_cycle_setter_clamps [of False truediv_655_35 pwm0 "- 3"]
        duty_cycle_setter_clamps [of False truediv_655_35 pwm0 32768]
  by (simp add: pwm0_def truediv_655_35_values)

theorem duty_cycle_setter_rpi_counterexample:
  "last (pwm_pin (duty_cycle_setter False truediv_655_35 pwm0 65535)) = ChangeDutyCycle 100
   \<and> last (pwm_pin (duty_cycle_setter False truediv_655_35 pwm0 65535))
       \<noteq> duty (max 0 (min 65535 65535) * 1023 div 65535)"
  by (simp add: duty_cycle_setter_def pwm0_def truediv_655_35_values)

section \<open>Properties of the SPI guards\<close>

lemmas platform_defs =
  Pin_init_def Pin_value_def SPI_init_def SPI_deinit_def
  switch_to_output_def value_setter_def

lemma SPIDevice_init_world:
  "snd (SPIDevice_init s (Some c) b po ph w) =
     w\<lparr>pins := (pins w)(dio_pin c := \<lparr>pin_mode = OUT, pin_value = True\<rparr>),
       spi_bus := (spi_bus w)(s := None),
       trace := trace w @ [SPIDeinit s, PinInit (dio_pin c) OUT None (Some True)]\<rparr>"
  by (simp add: SPIDevice_init_def platform_defs)

lemma SPIDevice_enter_world:
  "snd (snd (SPIDevice_enter self w)) =
     (case chip_select self of
        Some c \<Rightarrow>
          w\<lparr>pins := (pins w)(dio_pin c := (pins w (dio_pin c))\<lparr>pin_value := False\<rparr>),
            spi_bus := (spi_bus w)(spi self := Some (baudrate self, polarity self, phase self)),
            trace := trace w @ [SPIInit (spi self) (baudrate self) (polarity self) (phase self),
                                PinValue (dio_pin c) False]\<rparr>
      | None \<Rightarrow>
          w\<lparr>spi_bus := (spi_bus w)(spi self := Some (baudrate self, polarity self, phase self)),
            trace := trace w @ [SPIInit (spi self) (baudrate self) (polarity self) (phase self)]\<rparr>)"
  by (simp add: SPIDevice_enter_def platform_defs split: option.split)

lemma SPIDevice_exit_world:
  "snd (snd (SPIDevice_exit self w)) =
     (case chip_select self of
        Some c \<Rightarrow>
          w\<lparr>pins := (pins w)(dio_pin c := (pins w (dio_pin c))\<lparr>pin_value := True\<rparr>),
            spi_bus := (spi_bus w)(spi self := None),
            trace := trace w @ [PinValue (dio_pin c) True, SPIDeinit (spi self)]\<rparr>
      | None \<Rightarrow>
          w\<lparr>spi_bus := (spi_bus w)(spi self := None),
            trace := trace w @ [SPIDeinit (spi self)]\<rparr>)"
  by (simp add: SPIDevice_exit_def platform_defs split: option.split)

lemma SPIDevice_enter_parts:
  "fst (SPIDevice_enter self w) = spi self" "fst (snd (SPIDevice_enter self w)) = self"
  by (simp_all add: SPIDevice_enter_def Let_def)

lemma SPIDevice_exit_parts:
  "fst (SPIDevice_exit self w) = False" "fst (snd (SPIDevice_exit self w)) = self"
  by (simp_all add: SPIDevice_exit_def Let_def)

lemma py_with_unfold:
  "py_with enter exit self body w =
     ((case fst (body (fst (enter self w)) (snd (snd (enter self w)))) of
         Inr v \<Rightarrow> Inr (Some v)
       | Inl e \<Rightarrow>
           if fst (exit (fst (snd (enter self w)))
                        (snd (body (fst (enter self w)) (snd (snd (enter self w))))))
           then Inr None else Inl e),
      snd (exit (fst (snd (enter self w)))
                (snd (body (fst (enter self w)) (snd (snd (enter self w)))))))"
  by (simp add: py_with_def case_prod_beta)

lemma with_SPIDevice_unfold:
  "with_SPIDevice self body w =
     ((case fst (body (spi self) (snd (snd (SPIDevice_enter self w)))) of
         Inr v \<Rightarrow> Inr (Some v) | Inl e \<Rightarrow> Inl e),
      self,
      snd (snd (SPIDevice_exit self (snd (body (spi self) (snd (snd (SPIDevice_enter self w))))))))"
  unfolding with_SPIDevice_def py_with_unfold
  by (simp add: SPIDevice_enter_parts SPIDevice_exit_parts prod_eq_iff cong: sum.case_cong)


lemma bus_SPIDevice_init_world:
  "snd (bus_SPIDevice_init s (Some k) b po ph w) =
     w\<lparr>pins := (pins w)(k := \<lparr>pin_mode = OUT, pin_value = True\<rparr>),
       spi_bus := (spi_bus w)(s := None),
       trace := trace w @ [SPIDeinit s, PinInit k OUT None (Some True)]\<rparr>"
  by (simp add: bus_SPIDevice_init_def platform_defs)

lemma bus_SPIDevice_enter_world:
  "snd (snd (bus_SPIDevice_enter self w)) =
     (case bd_chip_select self of
        Some k \<Rightarrow>
          w\<lparr>spi_bus := (spi_bus w)(bd_spi self :=
                          Some (bd_baudrate self, bd_polarity self, bd_phase self)),
            trace := trace w @ [SPIInit (bd_spi self) (bd_baudrate self) (bd_polarity self)
                                  (bd_phase self),
                                PinSetValue k False]\<rparr>
      | None \<Rightarrow>
          w\<lparr>spi_bus := (spi_bus w)(bd_spi self :=
                          Some (bd_baudrate self, bd_polarity self, bd_phase self)),
            trace := trace w @ [SPIInit (bd_spi self) (bd_baudrate self) (bd_polarity self)
                                  (bd_phase self)]\<rparr>)"
  by (simp add: bus_SPIDevice_enter_def Pin_set_value_def platform_defs
           split: option.split)

lemma bus_SPIDevice_enter_result:
  "fst (bus_SPIDevice_enter self w) =
     (case bd_chip_select self of
        Some k \<Rightarrow> (case pin_store w of Some e \<Rightarrow> Inl e | None \<Rightarrow> Inr (bd_spi self))
      | None \<Rightarrow> Inr (bd_spi self))"
  by (simp add: bus_SPIDevice_enter_def Pin_set_value_def platform_defs
           split: option.split)

lemma bus_SPIDevice_enter_pins:
  "pins (snd (snd (bus_SPIDevice_enter self w))) = pins w"
  by (simp add: bus_SPIDevice_enter_world split: option.split)

lemma bus_SPIDevice_exit_pins:
  "pins (snd (snd (bus_SPIDevice_exit self w))) = pins w"
  by (simp add: bus_SPIDevice_exit_def Pin_set_value_def platform_defs
           split: option.split)

lemma bus_SPIDevice_enter_parts:
  "fst (snd (bus_SPIDevice_enter self w)) = self"
  by (simp add: bus_SPIDevice_enter_def Pin_set_value_def Let_def split: option.split)

lemma bus_SPIDevice_exit_parts:
  "fst (snd (bus_SPIDevice_exit self w)) = self"
  by (simp add: bus_SPIDevice_exit_def Pin_set_value_def split: option.split)

lemma with_bus_SPIDevice_self:
  "fst (snd (with_bus_SPIDevice self body w)) = self"
proof (cases "bus_SPIDevice_enter self w")
  case (fields r self1 w1)
  then have s1: "self1 = self"
    using bus_SPIDevice_enter_parts [of self w] by simp
  show ?thesis
  proof (cases r)
    case (Inl e)
    with fields s1 show ?thesis
      by (simp add: with_bus_SPIDevice_def py_with_raising_def)
  next
    case (Inr handle)
    obtain res w2 where b: "body handle w1 = (res, w2)"
      by (cases "body handle w1")
    obtain x self2 w3 where x: "bus_SPIDevice_exit self w2 = (x, self2, w3)"
      by (cases "bus_SPIDevice_exit self w2")
    then have s2: "self2 = self"
      using bus_SPIDevice_exit_parts [of self w2] by simp
    from fields s1 Inr b x s2 show ?thesis
      by (cases x) (simp_all add: with_bus_SPIDevice_def py_with_raising_def)
  qed
qed

text \<open>
  The guard of ubus_device.py keeps its select line as intended: construction puts it in
  output mode at the inactive level (true), every acquisition drives it active
  (false), every release drives it back to inactive (true), and so does a whole
  \<open>with\<close> statement whatever its body does, a body that raises included.
\<close>

lemma ubus_select_line_levels:
  fixes body :: "nat \<Rightarrow> world \<Rightarrow> (exn + 'a) \<times> world"
  shows
  "pins (snd (SPIDevice_init s (Some c) b po ph w)) (dio_pin c)
     = \<lparr>pin_mode = OUT, pin_value = True\<rparr>
   \<and> trace (snd (SPIDevice_init s (Some c) b po ph w))
     = trace w @ [SPIDeinit s, PinInit (dio_pin c) OUT None (Some True)]
   \<and> (chip_select self = Some c \<longrightarrow>
        pin_value (pins (snd (snd (SPIDevice_enter self w))) (dio_pin c)) = False
      \<and> pin_value (pins (snd (snd (SPIDevice_exit self w))) (dio_pin c)) = True
      \<and> trace (snd (snd (SPIDevice_exit self w)))
          = trace w @ [PinValue (dio_pin c) True, SPIDeinit (spi self)]
      \<and> pin_value (pins (snd (snd (with_SPIDevice self body w))) (dio_pin c)) = True)"
  by (simp add: SPIDevice_init_world SPIDevice_enter_world SPIDevice_exit_world
        with_SPIDevice_unfold)

lemma ubus_select_line_example:
  "chip_select spidev0 = Some cs0
   \<and> pin_value (pins (snd (snd (SPIDevice_enter spidev0 w0))) 15) = False
   \<and> pin_value (pins (snd (snd (SPIDevice_exit spidev0 w0))) 15) = True
   \<and> fst (with_SPIDevice spidev0 failing_body w0) = Inl (OSError 5)
   \<and> pin_value (pins (snd (snd (with_SPIDevice spidev0 failing_body w0))) 15) = True"
  using ubus_select_line_levels [where self = spidev0 and c = cs0 and w = w0
          and body = failing_body]
  by (simp add: spidev0_def cs0_def with_SPIDevice_unfold failing_body_def)

text \<open>
  The guard of bus_device.py never moves the select line after construction: the
  store to \<open>value\<close> leaves the pins as they are, in \<open>__enter__\<close> and in \<open>__exit__\<close>.
\<close>

lemma bus_select_line_never_driven:
  "pins (snd (snd (bus_SPIDevice_enter self w))) = pins w
   \<and> pins (snd (snd (bus_SPIDevice_exit self w))) = pins w"
  by (simp add: bus_SPIDevice_enter_pins bus_SPIDevice_exit_pins)

text \<open>
  C1. Every acquisition is to drive the select line active (false). The guard of
  bus_device.py, constructed on pin 15, leaves the line at the inactive level (true)
  of its construction when it is acquired: on pin objects that take the store to
  \<open>value\<close> \<open>__enter__\<close> returns the bus with the line still high, and on pin objects
  that refuse the store \<open>__enter__\<close> raises, the line still high.
\<close>

theorem bus_SPIDevice_enter_leaves_line_high:
  "fst (bus_SPIDevice_init 1 (Some 15) 100000 0 0 w0) = bspidev0
   \<and> pins w_bus 15 = \<lparr>pin_mode = OUT, pin_value = True\<rparr>
   \<and> fst (bus_SPIDevice_enter bspidev0 w_bus) = Inr 1
   \<and> pin_value (pins (snd (snd (bus_SPIDevice_enter bspidev0 w_bus))) 15) = True
   \<and> pin_value (pins (snd (snd (bus_SPIDevice_enter bspidev0 w_bus))) 15) \<noteq> False
   \<and> fst (bus_SPIDevice_enter bspidev0 w_bus_refusing) = Inl no_attribute
   \<and> pin_value (pins (snd (snd (bus_SPIDevice_enter bspidev0 w_bus_refusing))) 15) = True"
  by (simp add: bus_SPIDevice_enter_pins bus_SPIDevice_enter_result w_bus_refusing_def
        w_bus_def bus_SPIDevice_init_def platform_defs bspidev0_def w0_def)

lemma SPI_cycles_self: "fst (SPI_cycles self bodies w) = self"
proof (induction bodies arbitrary: w)
  case Nil
  show ?case by simp
next
  case (Cons body bodies)
  show ?case
    by (simp add: with_SPIDevice_unfold Cons.IH)
qed

lemma bus_SPI_cycles_self: "fst (bus_SPI_cycles self bodies w) = self"
proof (induction bodies arbitrary: w)
  case Nil
  show ?case by simp
next
  case (Cons body bodies)
  show ?case
  proof (cases "with_bus_SPIDevice self body w")
    case (fields r self1 w1)
    then have "self1 = self"
      using with_bus_SPIDevice_self [of self body w] by simp
    with fields show ?thesis
      by (simp add: Cons.IH)
  qed
qed

lemma SPIDevice_enter_trace:
  "trace (snd (snd (SPIDevice_enter self w))) =
     trace w @ SPIInit (spi self) (baudrate self) (polarity self) (phase self)
               # (case chip_select self of Some c \<Rightarrow> [PinValue (dio_pin c) False] | None \<Rightarrow> [])"
  by (simp add: SPIDevice_enter_world split: option.split)

lemma SPIDevice_enter_spi_bus:
  "spi_bus (snd (snd (SPIDevice_enter self w))) (spi self)
     = Some (baudrate self, polarity self, phase self)"
  by (simp add: SPIDevice_enter_world split: option.split)

lemma bus_SPIDevice_enter_trace:
  "trace (snd (snd (bus_SPIDevice_enter self w))) =
     trace w @ SPIInit (bd_spi self) (bd_baudrate self) (bd_polarity self) (bd_phase self)
               # (case bd_chip_select self of Some k \<Rightarrow> [PinSetValue k False] | None \<Rightarrow> [])"
  by (simp add: bus_SPIDevice_enter_world split: option.split)

lemma bus_SPIDevice_enter_spi_bus:
  "spi_bus (snd (snd (bus_SPIDevice_enter self w))) (bd_spi self)
     = Some (bd_baudrate self, bd_polarity self, bd_phase self)"
  by (simp add: bus_SPIDevice_enter_world split: option.split)

text \<open>
  C7. Every acquisition of an SPI guard calls \<open>init\<close> on the bus with the clock rate,
  polarity and phase stored at construction, before it touches the select line, and
  leaves the bus with exactly that configuration; acquisition, release and any number
  of \<open>with\<close> statements leave the guard's fields as they were, so the acquisition
  after them configures the bus as the first one did.
\<close>

theorem SPIDevice_same_configuration:
  fixes bodies :: "(nat \<Rightarrow> world \<Rightarrow> (exn + 'a) \<times> world) list"
  shows
  "fst (SPIDevice_init s cs b po ph w)
     = \<lparr>spi = s, baudrate = b, polarity = po, phase = ph, chip_select = cs\<rparr>
   \<and> trace (snd (snd (SPIDevice_enter self w)))
     = trace w @ SPIInit (spi self) (baudrate self) (polarity self) (phase self)
                 # (case chip_select self of Some c \<Rightarrow> [PinValue (dio_pin c) False]
                                           | None \<Rightarrow> [])
   \<and> spi_bus (snd (snd (SPIDevice_enter self w))) (spi self)
     = Some (baudrate self, polarity self, phase self)
   \<and> fst (snd (SPIDevice_enter self w)) = self
   \<and> fst (snd (SPIDevice_exit self w)) = self
   \<and> fst (SPI_cycles self bodies w) = self
   \<and> spi_bus (snd (snd (SPIDevice_enter (fst (SPI_cycles self bodies w))
                                          (snd (SPI_cycles self bodies w))))) (spi self)
     = spi_bus (snd (snd (SPIDevice_enter self w'))) (spi self)
   \<and> fst (bus_SPIDevice_init s k b po ph w)
     = \<lparr>bd_spi = s, bd_baudrate = b, bd_polarity = po, bd_phase = ph, bd_chip_select = k\<rparr>
   \<and> trace (snd (snd (bus_SPIDevice_enter bself w)))
     = trace w @ SPIInit (bd_spi bself) (bd_baudrate bself) (bd_polarity bself) (bd_phase bself)
                 # (case bd_chip_select bself of Some k \<Rightarrow> [PinSetValue k False]
                                               | None \<Rightarrow> [])
   \<and> spi_bus (snd (snd (bus_SPIDevice_enter bself w))) (bd_spi bself)
     = Some (bd_baudrate bself, bd_polarity bself, bd_phase bself)
   \<and> fst (snd (bus_SPIDevice_enter bself w)) = bself
   \<and> fst (snd (bus_SPIDevice_exit bself w)) = bself
   \<and> fst (bus_SPI_cycles bself bodies w) = bself
   \<and> spi_bus (snd (snd (bus_SPIDevice_enter (fst (bus_SPI_cycles bself bodies w))
                                          (snd (bus_SPI_cycles bself bodies w))))) (bd_spi bself)
     = spi_bus (snd (snd (bus_SPIDevice_enter bself w'))) (bd_spi bself)"
  by (simp add: SPIDevice_init_def bus_SPIDevice_init_def SPIDevice_enter_trace
        SPIDevice_enter_spi_bus SPIDevice_enter_parts SPIDevice_exit_parts SPI_cycles_self
        bus_SPIDevice_enter_trace bus_SPIDevice_enter_spi_bus bus_SPIDevice_enter_parts
        bus_SPIDevice_exit_parts bus_SPI_cycles_self Let_def)


section \<open>Properties of the I2C guard\<close>

lemma I2CDevice_write_result:
  "I2CDevice_write self buf start end_opt stop w =
     (let part = py_slice (heap w buf) start
                   (case end_opt of None \<Rightarrow> int (length (heap w buf)) | Some e \<Rightarrow> e)
      in ((case i2c_tx w (i2c self) (device_address self) part stop of
             Some e \<Rightarrow> Inl e | None \<Rightarrow> Inr ()),
          w\<lparr>heap := (heap w)(next_ref w := part),
            next_ref := Suc (next_ref w),
            trace := trace w @ [I2CWriteto (i2c self) (device_address self) part stop]\<rparr>))"
  by (simp add: I2CDevice_write_def bytearray_slice_def I2C_writeto_def Let_def)

lemma I2CDevice_readinto_result:
  "I2CDevice_readinto self buf start end_opt stop w =
     (let part = py_slice (heap w buf) start
                   (case end_opt of None \<Rightarrow> int (length (heap w buf)) | Some e \<Rightarrow> e);
          ev = I2CReadfromInto (i2c self) (device_address self) (next_ref w) (length part) stop
      in case i2c_rx w (i2c self) (device_address self) stop of
           Inl e \<Rightarrow>
             (Inl e, w\<lparr>heap := (heap w)(next_ref w := part),
                       next_ref := Suc (next_ref w),
                       trace := trace w @ [ev]\<rparr>)
         | Inr f \<Rightarrow>
             (Inr (), w\<lparr>heap := (heap w)(next_ref w := map f [0..<length part]),
                        next_ref := Suc (next_ref w),
                        trace := trace w @ [ev]\<rparr>))"
  by (simp add: I2CDevice_readinto_def bytearray_slice_def I2C_readfrom_into_def Let_def
           split: sum.split)

lemma I2CDevice_readinto_keeps_buffer:
  "buf < next_ref w \<Longrightarrow> heap (snd (I2CDevice_readinto self buf start end_opt stop w)) buf = heap w buf"
  by (simp add: I2CDevice_readinto_result Let_def split: sum.split)

lemma py_slice_in_range:
  "0 \<le> start \<Longrightarrow> start \<le> e \<Longrightarrow> e \<le> int (length xs) \<Longrightarrow>
   py_slice xs start e = take (nat (e - start)) (drop (nat start) xs)"
  by (simp add: py_slice_def slice_index_def Let_def nat_diff_distrib min_def)

lemma length_py_slice_in_range:
  "0 \<le> start \<Longrightarrow> start \<le> e \<Longrightarrow> e \<le> int (length xs) \<Longrightarrow>
   length (py_slice xs start e) = nat (e - start)"
  by (simp add: py_slice_in_range) 

lemma probe_loop_member: "probe_loop addrs a = (a \<in> set addrs)"
  by (induction addrs) auto


lemma I2CDevice_init_probe_result:
  "I2CDevice_init bus a True scl_arg sda_arg fr w =
     ((case i2c_scan_result w bus of
         Inl e \<Rightarrow> Inl e
       | Inr addrs \<Rightarrow>
           if a \<in> set addrs
           then Inr \<lparr>i2c = bus, sda = scl_arg, scl = sda_arg, freq = fr, device_address = a\<rparr>
           else Inl (ValueError (''No I2C device at address: '' @ format_x a))),
      w\<lparr>trace := trace w @ [I2CScan bus]\<rparr>)"
  by (simp add: I2CDevice_init_def probe_for_device_def I2C_scan_def probe_loop_member
           split: sum.split)

lemma I2CDevice_init_noprobe_result:
  "I2CDevice_init bus a False scl_arg sda_arg fr w =
     (Inr \<lparr>i2c = bus, sda = scl_arg, scl = sda_arg, freq = fr, device_address = a\<rparr>, w)"
  by (simp add: I2CDevice_init_def)

lemma I2CDevice_write_then_readinto_result:
  "I2CDevice_write_then_readinto self ob ib os oe is ie w =
     (case I2CDevice_write self ob os
             (Some (case oe of None \<Rightarrow> int (length (heap w ob)) | Some e \<Rightarrow> e)) False w of
        (Inl e, w1) \<Rightarrow> (Inl e, w1)
      | (Inr u, w1) \<Rightarrow>
          I2CDevice_readinto self ib is
            (Some (case ie of None \<Rightarrow> int (length (heap w ib)) | Some e \<Rightarrow> e)) True w1)"
  by (simp add: I2CDevice_write_then_readinto_def Let_def)

lemma filter_is_scan_write:
  "filter is_scan (trace (snd (I2CDevice_write self buf start eo stop w)))
     = filter is_scan (trace w)"
  by (simp add: I2CDevice_write_result Let_def is_scan_def)

lemma filter_is_scan_readinto:
  "filter is_scan (trace (snd (I2CDevice_readinto self buf start eo stop w)))
     = filter is_scan (trace w)"
  by (simp add: I2CDevice_readinto_result Let_def is_scan_def split: sum.split)

lemma filter_is_scan_write_then_readinto:
  "filter is_scan (trace (snd (I2CDevice_write_then_readinto self ob ib os oe is ie w)))
     = filter is_scan (trace w)"
  by (simp add: I2CDevice_write_then_readinto_result I2CDevice_write_result
        I2CDevice_readinto_result Let_def is_scan_def split: option.split sum.split)

text \<open>
  C2. With \<open>probe=True\<close>, on a bus whose scan answers, construction succeeds exactly
  when the device address is in the scan result, and otherwise raises the
  \<open>ValueError\<close> "No I2C device at address"; an error of the scan itself is raised as
  it is. Construction scans once; \<open>readinto\<close>, \<open>write\<close> and \<open>write_then_readinto\<close> add
  no scan to the calls the bus has seen.
\<close>

theorem I2CDevice_probe_at_construction:
  "(i2c_scan_result w bus = Inr addrs \<longrightarrow>
      ((\<exists>dev. fst (I2CDevice_init bus a True sc sd fr w) = Inr dev) = (a \<in> set addrs))
      \<and> (a \<notin> set addrs \<longrightarrow>
           fst (I2CDevice_init bus a True sc sd fr w)
             = Inl (ValueError (''No I2C device at address: '' @ format_x a))))
   \<and> (i2c_scan_result w bus = Inl e \<longrightarrow> fst (I2CDevice_init bus a True sc sd fr w) = Inl e)
   \<and> trace (snd (I2CDevice_init bus a True sc sd fr w)) = trace w @ [I2CScan bus]
   \<and> filter is_scan (trace (snd (I2CDevice_readinto self buf start eo stop w)))
       = filter is_scan (trace w)
   \<and> filter is_scan (trace (snd (I2CDevice_write self buf start eo stop w)))
       = filter is_scan (trace w)
   \<and> filter is_scan (trace (snd (I2CDevice_write_then_readinto self ob ib os oe is ie w)))
       = filter is_scan (trace w)"
  by (simp add: I2CDevice_init_probe_result filter_is_scan_write filter_is_scan_readinto
        filter_is_scan_write_then_readinto)

theorem I2CDevice_probe_at_construction_witness:
  "i2c_scan_result w0 bus0 = Inr [0x10]
   \<and> fst (I2CDevice_init bus0 0x10 True None None None w0) = Inr i2cdev0
   \<and> fst (I2CDevice_init bus0 0x20 True None None None w0)
       = Inl (ValueError ''No I2C device at address: 20'')"
  using I2CDevice_probe_at_construction [where w = w0 and bus = bus0 and addrs = "[0x10]"
          and a = "0x10" and sc = None and sd = None and fr = None]
        I2CDevice_probe_at_construction [where w = w0 and bus = bus0 and addrs = "[0x10]"
          and a = "0x20" and sc = None and sd = None and fr = None]
  by (simp add: w0_def i2cdev0_def I2CDevice_init_probe_result format_x_def hex_nat.simps
        hex_digit_def)





text \<open>
  C4. \<open>write\<close> hands the bus exactly \<open>buf[start:end]\<close> for the guard's device
  address; without \<open>end\<close> it uses the buffer's length; for
  \<open>0 \<le> start \<le> end \<le> len(buf)\<close> these are the \<open>end - start\<close> bytes from position
  \<open>start\<close> on.
\<close>

theorem I2CDevice_write_transmits_slice:
  "trace (snd (I2CDevice_write self buf start (Some e) stop w))
     = trace w @ [I2CWriteto (i2c self) (device_address self)
                    (py_slice (heap w buf) start e) stop]
   \<and> I2CDevice_write self buf start None stop w
     = I2CDevice_write self buf start (Some (int (length (heap w buf)))) stop w
   \<and> (0 \<le> start \<and> start \<le> e \<and> e \<le> int (length (heap w buf)) \<longrightarrow>
        py_slice (heap w buf) start e
          = take (nat (e - start)) (drop (nat start) (heap w buf))
      \<and> length (py_slice (heap w buf) start e) = nat (e - start))"
proof (intro conjI impI)
  show "trace (snd (I2CDevice_write self buf start (Some e) stop w))
     = trace w @ [I2CWriteto (i2c self) (device_address self)
                    (py_slice (heap w buf) start e) stop]"
    by (simp add: I2CDevice_write_result Let_def)
  show "I2CDevice_write self buf start None stop w
     = I2CDevice_write self buf start (Some (int (length (heap w buf)))) stop w"
    by (simp add: I2CDevice_write_result)
next
  assume "0 \<le> start \<and> start \<le> e \<and> e \<le> int (length (heap w buf))"
  then show "py_slice (heap w buf) start e
          = take (nat (e - start)) (drop (nat start) (heap w buf))"
    by (simp add: py_slice_in_range)
next
  assume "0 \<le> start \<and> start \<le> e \<and> e \<le> int (length (heap w buf))"
  then show "length (py_slice (heap w buf) start e) = nat (e - start)"
    by (simp add: length_py_slice_in_range)
qed

theorem I2CDevice_write_transmits_slice_witness:
  "(0::int) \<le> 2 \<and> (2::int) \<le> 5 \<and> 5 \<le> int (length (heap w0 0))
   \<and> py_slice (heap w0 0) 2 5 = [2, 3, 4]
   \<and> length (py_slice (heap w0 0) 2 5) = 3
   \<and> trace (snd (I2CDevice_write i2cdev0 0 2 (Some 5) True w0))
       = [I2CWriteto bus0 0x10 [2, 3, 4] True]"
proof -
  have h: "(0::int) \<le> 2 \<and> (2::int) \<le> 5 \<and> 5 \<le> int (length (heap w0 0))"
    by (simp add: w0_def)
  note t = I2CDevice_write_transmits_slice [where self = i2cdev0 and buf = 0 and start = 2
      and e = 5 and stop = True and w = w0]
  note part = t [THEN conjunct2, THEN conjunct2, rule_format, OF h]
  have s: "py_slice (heap w0 0) 2 5 = [2, 3, 4]"
    using part [THEN conjunct1] by (simp add: w0_def)
  have l: "length (py_slice (heap w0 0) 2 5) = 3"
    using part [THEN conjunct2] by simp
  have tr: "trace (snd (I2CDevice_write i2cdev0 0 2 (Some 5) True w0))
       = [I2CWriteto bus0 0x10 [2, 3, 4] True]"
    using t [THEN conjunct1] s by (simp add: w0_def i2cdev0_def)
  from h s l tr show ?thesis by simp
qed

text \<open>
  C5. The bytes read are to land in the caller's buffer. At this input (a four-byte
  bytearray of zeros, a device that sends 1, 2, 3, 4) \<open>readinto\<close> returns normally,
  the caller's bytearray still holds the zeros, and the bytes are in the temporary
  object that \<open>buf[start:end]\<close> allocated.
\<close>

theorem I2CDevice_readinto_loses_bytes:
  "fst (I2CDevice_readinto i2cdev0 1 0 None True w0) = Inr ()
   \<and> heap w0 1 = [0, 0, 0, 0]
   \<and> heap (snd (I2CDevice_readinto i2cdev0 1 0 None True w0)) 1 = [0, 0, 0, 0]
   \<and> heap (snd (I2CDevice_readinto i2cdev0 1 0 None True w0)) 2 = [1, 2, 3, 4]
   \<and> trace (snd (I2CDevice_readinto i2cdev0 1 0 None True w0))
       = [I2CReadfromInto bus0 0x10 2 4 True]"
  by (simp add: I2CDevice_readinto_result w0_def i2cdev0_def py_slice_def slice_index_def
        upt_rec [of 0] upt_rec [of "Suc 0"] upt_rec [of 2] upt_rec [of 3] upt_rec [of 4])

section \<open>Acquisition of the I2C guard\<close>

lemma I2CDevice_enter_result:
  "I2CDevice_enter self w =
     (case (scl self, sda self) of
        (Some c, Some d) \<Rightarrow>
          (self\<lparr>i2c := \<lparr>bus_scl = c, bus_sda = d, bus_freq = freq self\<rparr>\<rparr>,
           self\<lparr>i2c := \<lparr>bus_scl = c, bus_sda = d, bus_freq = freq self\<rparr>\<rparr>,
           w\<lparr>trace := trace w @ [I2CNew \<lparr>bus_scl = c, bus_sda = d, bus_freq = freq self\<rparr>]\<rparr>)
      | _ \<Rightarrow> (self, self, w))"
  by (simp add: I2CDevice_enter_def I2C_new_def split: option.split)

text \<open>
  C8. Acquisition is to re-create the bus on the supplied pins. A guard constructed
  with \<open>scl\<close> on pin 22 and \<open>sda\<close> on pin 21 (and a frequency) re-creates the bus with
  \<open>scl\<close> on pin 21 and \<open>sda\<close> on pin 22: the constructor stores the two crosswise.
\<close>

theorem I2CDevice_enter_swaps_pins:
  "(case fst (I2CDevice_init bus0 0x10 False (Some 22) (Some 21) (Some 100000) w0) of
      Inl e \<Rightarrow> False
    | Inr dev \<Rightarrow>
        i2c (fst (I2CDevice_enter dev w0))
          = \<lparr>bus_scl = 21, bus_sda = 22, bus_freq = Some 100000\<rparr>
        \<and> i2c (fst (I2CDevice_enter dev w0))
          \<noteq> \<lparr>bus_scl = 22, bus_sda = 21, bus_freq = Some 100000\<rparr>)"
  by (simp add: I2CDevice_init_noprobe_result I2CDevice_enter_result)

section \<open>Exceptions\<close>





section \<open>Properties of DigitalInOut on the esp8266\<close>

lemma esp8266_switch_to_output_accepts:
  "esp8266_switch_to_output PULL_UP self None v w = (Inr (), switch_to_output self v w)"
  "esp8266_switch_to_output PULL_UP self (Some PULL_UP) v w
     = (Inr (), Pin_init (dio_pin self) OUT (Some PULL_UP) (Some v) w)"
  by (simp_all add: esp8266_switch_to_output_def switch_to_output_def)


text \<open>
  C9. On the esp8266, \<open>switch_to_output\<close> with a pull that is neither \<open>None\<close> nor
  \<open>Pull.UP\<close> raises \<open>AttributeError\<close> in that call, and nothing has been done to
  the pin: the world, and with it the pin's mode, is as before.
\<close>

theorem esp8266_switch_to_output_rejects_pull:
  "p \<noteq> PULL_UP \<Longrightarrow>
   fst (esp8266_switch_to_output PULL_UP self (Some p) v w) = Inl (AttributeError pull_message)
   \<and> snd (esp8266_switch_to_output PULL_UP self (Some p) v w) = w
   \<and> pin_mode (pins (snd (esp8266_switch_to_output PULL_UP self (Some p) v w)) (dio_pin self))
       = pin_mode (pins w (dio_pin self))"
  by (simp add: esp8266_switch_to_output_def)

theorem esp8266_switch_to_output_rejects_pull_witness:
  "(2::int) \<noteq> 1
   \<and> fst (esp8266_switch_to_output 1 cs0 (Some 2) True w0) = Inl (AttributeError pull_message)
   \<and> pin_mode (pins (snd (esp8266_switch_to_output 1 cs0 (Some 2) True w0)) 15) = IN"
  using esp8266_switch_to_output_rejects_pull [of 2 1 cs0 True w0]
  by (simp add: w0_def cs0_def)


end
